theory Spec2Isabelle
  imports Complex_Main "HOL-Library.AList" "HOL-Library.Multiset"
begin

section \<open>Shared model of the runtime\<close>

text \<open>
  The crawler is Python. Its floats (delays, timestamps, response times) are modelled as
  reals, so rounding is not part of the model. Everything the code reads from outside
  (the wall clock, the random module, the network) is explicit: the clock and the number
  of random draws made so far are fields of a \<open>world\<close> record that every operation takes
  and returns, and the values the environment supplies are functions of a counter.

  Exceptions are values: \<open>exn\<close> lists the exception classes the modelled code can raise,
  \<open>str_exn\<close> is Python's \<open>str(e)\<close>, and a fallible operation returns \<open>exn + 'a\<close>.
\<close>

type_synonym url = string

datatype exn =
    RequestException string
  | HTTPError string
  | ProgrammingError string
  | KeyError string
  | ValueError string
  | TypeError string
  | AttributeError string
  | RuntimeError string

fun str_exn :: "exn \<Rightarrow> string" where
  "str_exn (RequestException m) = m"
| "str_exn (HTTPError m) = m"
| "str_exn (ProgrammingError m) = m"
| "str_exn (KeyError k) = [CHR 0x27] @ k @ [CHR 0x27]"
| "str_exn (ValueError m) = m"
| "str_exn (TypeError m) = m"
| "str_exn (AttributeError m) = m"
| "str_exn (RuntimeError m) = m"

text \<open>
  A \<open>requests.Session\<close> object. Python compares sessions by identity, so a session carries
  the number it was allocated under; \<open>via_tor\<close> says whether its proxies point at the Tor
  SOCKS port.
\<close>

datatype session = Session (sid: nat) (via_tor: bool)

text \<open>
  What BeautifulSoup finds in a page: the text of the title tag if there is one, the
  \<open>content\<close> attribute of the description meta tag if there is one (empty when the tag
  has no such attribute), the page text, and the \<open>href\<close> and text of every anchor that
  has an \<open>href\<close>, in document order.
\<close>

record html =
  title_tag :: "string option"
  meta_desc :: "string option"
  page_text :: string
  anchors :: "(string \<times> string) list"

text \<open>
  A response: its status code, reason phrase and URL, the \<open>IsTor\<close> entry of its JSON
  body (false when absent), and its parsed HTML.
\<close>

record response =
  status_code :: int
  reason_phrase :: string
  response_url :: url
  is_tor :: bool
  soup :: html

record parsed_url =
  netloc :: string
  path :: string

record search_hit =
  hit_url :: string
  hit_title :: string
  hit_content :: string

text \<open>
  The world: the clock, the log of the sleeps made, the number of draws made from the
  random module, the number of the next session object, the log of the HTTP calls made,
  the thread that is running, and the number of threads started so far (the number of
  the next one).
\<close>

record world =
  now :: real
  sleeps :: "real list"
  draws :: nat
  next_sid :: nat
  calls :: "(session \<times> url) list"
  thread :: nat
  threads :: nat

text \<open>
  The environment: \<open>net n s u\<close> is what the \<open>n\<close>-th HTTP call of the run returns when it
  is sent to \<open>u\<close> over session \<open>s\<close> (an exception or a response) and \<open>latency n\<close> is how
  long that call takes; \<open>rnd n\<close> is the number in \<open>[0, 1)\<close> that the \<open>n\<close>-th draw from the
  random module yields (the value of \<open>random.random()\<close> when the draw is a
  \<open>random.uniform\<close>). The functions of \<open>urllib.parse\<close> and the clearnet search provider
  are outside the repository and are parameters too. \<open>as_completed n\<close> is the order in
  which \<open>concurrent.futures.as_completed\<close> yields the \<open>n\<close> futures of a batch, as the
  list of their positions in the order of submission; it yields every future once, so
  the list is a rearrangement of \<open>[0..<n]\<close>.
\<close>

record env =
  net :: "nat \<Rightarrow> session \<Rightarrow> url \<Rightarrow> exn + response"
  latency :: "nat \<Rightarrow> real"
  rnd :: "nat \<Rightarrow> real"
  urlparse :: "url \<Rightarrow> exn + parsed_url"
  urljoin :: "url \<Rightarrow> string \<Rightarrow> string"
  tavily_search :: "string \<Rightarrow> search_hit list"
  extract_search_terms :: "url \<Rightarrow> string"
  as_completed :: "nat \<Rightarrow> nat list"

definition time_sleep :: "real \<Rightarrow> world \<Rightarrow> exn + world" where
  "time_sleep d w =
     (if d < 0 then Inl (ValueError ''sleep length must be non-negative'')
      else Inr (w\<lparr>now := now w + d, sleeps := sleeps w @ [d]\<rparr>))"

definition random_uniform :: "env \<Rightarrow> real \<Rightarrow> real \<Rightarrow> world \<Rightarrow> real \<times> world" where
  "random_uniform e a b w = (a + (b - a) * rnd e (draws w), w\<lparr>draws := draws w + 1\<rparr>)"

text \<open>
  \<open>random.choice(self.user_agents)\<close>: one draw from the random source. The header it
  fills is handed to the session and decides nothing in the code, so only the draw is
  kept.
\<close>

definition choose_user_agent :: "world \<Rightarrow> world" where
  "choose_user_agent w = w\<lparr>draws := draws w + 1\<rparr>"

definition new_session :: "bool \<Rightarrow> world \<Rightarrow> session \<times> world" where
  "new_session tor w = (Session (next_sid w) tor, w\<lparr>next_sid := next_sid w + 1\<rparr>)"

text \<open>
  One HTTP call on a session variable. A variable holding \<open>None\<close> has no \<open>get\<close> attribute,
  which Python reports as an AttributeError.
\<close>

definition session_request :: "env \<Rightarrow> session option \<Rightarrow> url \<Rightarrow> world \<Rightarrow> (exn + response) \<times> world" where
  "session_request e s u w =
     (case s of
        None \<Rightarrow> (Inl (AttributeError ''NoneType object has no attribute''), w)
      | Some s' \<Rightarrow>
          (net e (length (calls w)) s' u,
           w\<lparr>now := now w + latency e (length (calls w)), calls := calls w @ [(s', u)]\<rparr>))"

text \<open>
  \<open>raise_for_status\<close> of the requests library, with the message it builds;
  \<open>decimal\<close> writes a number as Python's \<open>str\<close> does.
\<close>

fun decimal :: "nat \<Rightarrow> string" where
  "decimal n =
     (if n < 10 then [''0123456789'' ! n]
      else decimal (n div 10) @ [''0123456789'' ! (n mod 10)])"

declare decimal.simps [simp del]

definition raise_for_status :: "response \<Rightarrow> exn + response" where
  "raise_for_status r =
     (if 400 \<le> status_code r \<and> status_code r < 500 then
        Inl (HTTPError (decimal (nat (status_code r)) @ '' Client Error: '' @ reason_phrase r
                          @ '' for url: '' @ response_url r))
      else if 500 \<le> status_code r \<and> status_code r < 600 then
        Inl (HTTPError (decimal (nat (status_code r)) @ '' Server Error: '' @ reason_phrase r
                          @ '' for url: '' @ response_url r))
      else Inr r)"

section \<open>connection\_manager.py\<close>

record connection_manager =
  tor_enabled :: bool
  clearnet_fallback :: bool
  tor_session :: "session option"
  clearnet_session :: "session option"
  circuit_created_time :: "real option"
  max_circuit_age :: real
  request_count :: int
  max_requests_per_circuit :: int

definition tor_check_url :: url where
  "tor_check_url = ''https://check.torproject.org/api/ip''"

text \<open>
  \<open>_initialize_tor_session\<close>: the new session replaces \<open>tor_session\<close> before it is
  validated, and the circuit's creation time and request count are reset only when the
  check endpoint answers 200 with \<open>IsTor\<close> true.
\<close>

definition initialize_tor_session ::
  "env \<Rightarrow> connection_manager \<Rightarrow> world \<Rightarrow> bool \<times> connection_manager \<times> world" where
  "initialize_tor_session e cm w =
     (let (s, w0) = new_session True w;
          cm1 = cm\<lparr>tor_session := Some s\<rparr>;
          w1 = choose_user_agent w0;
          (r, w2) = session_request e (Some s) tor_check_url w1
      in case r of
           Inl ex \<Rightarrow> (False, cm1, w2)
         | Inr resp \<Rightarrow>
             if status_code resp = 200 then
               if is_tor resp then
                 (True, cm1\<lparr>circuit_created_time := Some (now w2), request_count := 0\<rparr>, w2)
               else (False, cm1, w2)
             else (False, cm1, w2))"

definition get_clearnet_session ::
  "connection_manager \<Rightarrow> world \<Rightarrow> session option \<times> connection_manager \<times> world" where
  "get_clearnet_session cm w =
     (case clearnet_session cm of
        None \<Rightarrow> (let (s, w1) = new_session False w
                 in (Some s, cm\<lparr>clearnet_session := Some s\<rparr>, w1))
      | Some s \<Rightarrow> (Some s, cm, w))"

definition should_rotate_circuit :: "connection_manager \<Rightarrow> world \<Rightarrow> bool" where
  "should_rotate_circuit cm w =
     (case circuit_created_time cm of
        None \<Rightarrow> True
      | Some t \<Rightarrow>
          if now w - t > max_circuit_age cm then True
          else if request_count cm \<ge> max_requests_per_circuit cm then True
          else False)"

definition get_session ::
  "env \<Rightarrow> bool \<Rightarrow> connection_manager \<Rightarrow> world \<Rightarrow> session option \<times> connection_manager \<times> world" where
  "get_session e force_clearnet cm w =
     (if force_clearnet \<or> \<not> tor_enabled cm then get_clearnet_session cm w
      else if tor_session cm = None \<or> should_rotate_circuit cm w then
        (let (tor_success, cm1, w1) = initialize_tor_session e cm w
         in if \<not> tor_success \<and> clearnet_fallback cm1 then get_clearnet_session cm1 w1
            else (tor_session cm1, cm1, w1))
      else (tor_session cm, cm, w))"

text \<open>
  \<open>perform_request\<close>. The HTTP method, headers and timeout are handed to the session
  untouched and decide nothing in this function; the environment \<open>net\<close> stands for what
  the call returns. No caller in the repository passes headers, so the User-Agent is
  drawn on every call. The loop \<open>for attempt in range(max_retries + 1)\<close> is a recursion
  over the list of attempt numbers. \<open>session\<close> is the local variable of the source: it is
  assigned once from \<open>get_session\<close> and again only in the clearnet switch.
\<close>

definition raise_last :: "exn option \<Rightarrow> exn" where
  "raise_last last_exception =
     (case last_exception of
        None \<Rightarrow> TypeError ''exceptions must derive from BaseException''
      | Some ex \<Rightarrow> ex)"

fun request_loop ::
  "env \<Rightarrow> url \<Rightarrow> int \<Rightarrow> real \<Rightarrow> nat list \<Rightarrow> session option \<Rightarrow> real \<Rightarrow> exn option
     \<Rightarrow> connection_manager \<Rightarrow> world \<Rightarrow> (exn + response) \<times> connection_manager \<times> world" where
  "request_loop e u max_retries backoff_factor [] session delay last_exception cm w =
     (Inl (raise_last last_exception), cm, w)"
| "request_loop e u max_retries backoff_factor (attempt # rest) session delay last_exception cm w =
     (let (r, w1) = session_request e session u w in
      case (case r of Inl ex \<Rightarrow> Inl ex | Inr resp \<Rightarrow> raise_for_status resp) of
        Inr resp \<Rightarrow> (Inr resp, cm, w1)
      | Inl ex \<Rightarrow>
          if int attempt < max_retries then
            (case time_sleep delay w1 of
               Inl ex' \<Rightarrow> (Inl ex', cm, w1)
             | Inr w2 \<Rightarrow>
                 if session = tor_session cm \<and> attempt \<ge> 1 then
                   (let (ok, cm1, w3) = initialize_tor_session e cm w2 in
                    if attempt \<ge> 2 \<and> clearnet_fallback cm1 then
                      (let (session', cm2, w4) = get_clearnet_session cm1 w3 in
                       request_loop e u max_retries backoff_factor rest session'
                         (delay * backoff_factor) (Some ex) cm2 w4)
                    else request_loop e u max_retries backoff_factor rest session
                           (delay * backoff_factor) (Some ex) cm1 w3)
                 else request_loop e u max_retries backoff_factor rest session
                        (delay * backoff_factor) (Some ex) cm w2)
          else request_loop e u max_retries backoff_factor rest session delay (Some ex) cm w1)"

definition perform_request ::
  "env \<Rightarrow> url \<Rightarrow> bool \<Rightarrow> int \<Rightarrow> real \<Rightarrow> real \<Rightarrow> connection_manager \<Rightarrow> world
     \<Rightarrow> (exn + response) \<times> connection_manager \<times> world" where
  "perform_request e u force_clearnet max_retries initial_delay backoff_factor cm w =
     (let (session, cm1, w1) = get_session e force_clearnet cm (choose_user_agent w);
          cm2 = (if session = tor_session cm1
                 then cm1\<lparr>request_count := request_count cm1 + 1\<rparr> else cm1)
      in request_loop e u max_retries backoff_factor [0..<nat (max_retries + 1)]
           session initial_delay None cm2 w1)"

section \<open>retry\_utils.py\<close>

text \<open>
  \<open>retry_operation\<close> runs a callable that reads and changes some program state \<open>'s\<close>
  and the world. \<open>exceptions=(Exception,)\<close> catches every exception of the model.
\<close>

fun retry_loop ::
  "env \<Rightarrow> ('s \<Rightarrow> world \<Rightarrow> (exn + 'a) \<times> 's \<times> world) \<Rightarrow> int \<Rightarrow> real \<Rightarrow> nat list \<Rightarrow> real
     \<Rightarrow> exn option \<Rightarrow> 's \<Rightarrow> world \<Rightarrow> (exn + 'a) \<times> 's \<times> world" where
  "retry_loop e function max_retries backoff_factor [] delay last_exception s w =
     (Inl (raise_last last_exception), s, w)"
| "retry_loop e function max_retries backoff_factor (attempt # rest) delay last_exception s w =
     (case function s w of
        (Inr v, s1, w1) \<Rightarrow> (Inr v, s1, w1)
      | (Inl ex, s1, w1) \<Rightarrow>
          if int attempt < max_retries then
            (let (jitter, w2) = random_uniform e 0 (1/2) w1;
                 sleep_time = delay + jitter
             in case time_sleep sleep_time w2 of
                  Inl ex' \<Rightarrow> (Inl ex', s1, w2)
                | Inr w3 \<Rightarrow>
                    retry_loop e function max_retries backoff_factor rest
                      (delay * backoff_factor) (Some ex) s1 w3)
          else retry_loop e function max_retries backoff_factor rest delay (Some ex) s1 w1)"

definition retry_operation ::
  "env \<Rightarrow> ('s \<Rightarrow> world \<Rightarrow> (exn + 'a) \<times> 's \<times> world) \<Rightarrow> int \<Rightarrow> real \<Rightarrow> real
     \<Rightarrow> 's \<Rightarrow> world \<Rightarrow> (exn + 'a) \<times> 's \<times> world" where
  "retry_operation e function max_retries initial_delay backoff_factor s w =
     retry_loop e function max_retries backoff_factor [0..<nat (max_retries + 1)]
       initial_delay None s w"

section \<open>security\_utils.py: ThrottleManager\<close>

record domain_stats =
  requests :: nat
  errors :: nat
  response_times :: "real list"
  status_codes :: "int list"
  last_error :: "real option"
  consecutive_errors :: nat

record throttle_manager =
  base_delay :: real
  response_factor :: real
  error_backoff :: real
  max_delay :: real
  jitter :: real
  stats_by_domain :: "string \<rightharpoonup> domain_stats"
  last_request_time :: "string \<rightharpoonup> real"

text \<open>Python's \<open>xs[-n:]\<close> for a positive \<open>n\<close>: the last \<open>n\<close> elements, or all of a shorter list.\<close>

definition last_n :: "nat \<Rightarrow> 'a list \<Rightarrow> 'a list" where
  "last_n n xs = drop (length xs - n) xs"

text \<open>
  The fallback of \<open>_extract_domain\<close>: the first match of the regular expression
  \<open>://([^/]+)\<close>, or the whole URL when there is none.
\<close>

fun search_domain :: "string \<Rightarrow> string option" where
  "search_domain [] = None"
| "search_domain (c # cs) =
     (if take 3 (c # cs) = ''://'' \<and> takeWhile (\<lambda>x. x \<noteq> CHR ''/'') (drop 3 (c # cs)) \<noteq> []
      then Some (takeWhile (\<lambda>x. x \<noteq> CHR ''/'') (drop 3 (c # cs)))
      else search_domain cs)"

definition throttle_extract_domain :: "env \<Rightarrow> url \<Rightarrow> string" where
  "throttle_extract_domain e u =
     (case urlparse e u of
        Inr parsed \<Rightarrow> netloc parsed
      | Inl ex \<Rightarrow> (case search_domain u of Some d \<Rightarrow> d | None \<Rightarrow> u))"

definition apply_jitter :: "env \<Rightarrow> throttle_manager \<Rightarrow> real \<Rightarrow> world \<Rightarrow> real \<times> world" where
  "apply_jitter e tm delay w =
     (let jitter_amount = delay * jitter tm;
          (r, w1) = random_uniform e (- jitter_amount) jitter_amount w
      in (delay + r, w1))"

definition get_delay :: "env \<Rightarrow> throttle_manager \<Rightarrow> url \<Rightarrow> world \<Rightarrow> real \<times> world" where
  "get_delay e tm u w =
     (let domain = throttle_extract_domain e u in
      case stats_by_domain tm domain of
        None \<Rightarrow> apply_jitter e tm (base_delay tm) w
      | Some stats \<Rightarrow>
          (let delay = base_delay tm;
               delay = (if response_times stats \<noteq> [] then
                          (let avg_response_time =
                                 sum_list (response_times stats) / real (length (response_times stats))
                           in max delay (avg_response_time * response_factor tm))
                        else delay);
               delay = (if consecutive_errors stats > 0
                        then delay * error_backoff tm ^ min (consecutive_errors stats) 3
                        else delay);
               delay = (if status_codes stats \<noteq> []
                           \<and> list_ex (\<lambda>code. code \<ge> 500) (last_n 3 (status_codes stats))
                        then delay * (3/2) else delay);
               delay = (if status_codes stats \<noteq> []
                           \<and> list_ex (\<lambda>code. code = 429) (last_n 5 (status_codes stats))
                        then delay * 2 else delay);
               delay = min delay (max_delay tm)
           in apply_jitter e tm delay w))"

text \<open>
  The delay as the design states it, to compare with \<open>get_delay\<close>: the base delay raised
  to the scaled average response time (an empty window raises nothing), times the error
  backoff, times the two status-code penalties, capped, and then moved by the fraction
  \<open>x\<close> of the jitter range, \<open>x\<close> between \<open>-1\<close> and \<open>1\<close>.
\<close>

definition capped_delay :: "throttle_manager \<Rightarrow> domain_stats \<Rightarrow> real" where
  "capped_delay tm st =
     min (max_delay tm)
       ((if response_times st = [] then base_delay tm
         else max (base_delay tm)
                (sum_list (response_times st) / real (length (response_times st))
                   * response_factor tm))
        * error_backoff tm ^ min (consecutive_errors st) 3
        * (if \<exists>code \<in> set (last_n 3 (status_codes st)). code \<ge> 500 then 3/2 else 1)
        * (if \<exists>code \<in> set (last_n 5 (status_codes st)). code = 429 then 2 else 1))"

definition compute_delay_spec :: "throttle_manager \<Rightarrow> domain_stats \<Rightarrow> real \<Rightarrow> real" where
  "compute_delay_spec tm st x = capped_delay tm st * (1 + x * jitter tm)"

section \<open>onion\_database.py\<close>

text \<open>
  The two tables as lists of rows in insertion order. Timestamps, which the code stores
  as ISO strings and compares as such, are the clock values they denote. The JSON columns
  \<open>tags\<close> and \<open>metadata\<close> hold the values their text encodes. \<open>link_id\<close> is the column
  \<open>id\<close>.

  The connection is opened by \<open>sqlite3.connect\<close> with \<open>check_same_thread\<close> at its
  default, so it belongs to the thread that created the database object,
  \<open>conn_thread\<close>. Every method takes the thread that calls it, \<open>tid\<close>: a statement
  issued from another thread raises \<open>sqlite3.ProgrammingError\<close>, which the method's
  \<open>except sqlite3.Error\<close> turns into its failure value with nothing changed. The
  statements the code issues are valid for this schema, and failures of the storage
  itself (a full disk, a locked file) are not modelled.
\<close>

datatype json = JStr string | JNum real | JBool bool

record link =
  link_id :: nat
  link_url :: url
  title :: string
  description :: string
  category :: string
  content_preview :: string
  last_checked :: real
  status :: string
  discovery_source :: string
  trust_score :: real
  tags :: "string list"
  metadata :: "(string \<times> json) list"

record crawl_history_entry =
  onion_id :: nat
  crawl_date :: real
  crawl_status :: string
  response_time :: "real option"
  error_message :: "string option"

record onion_db =
  onion_links :: "link list"
  crawl_history :: "crawl_history_entry list"
  conn_thread :: nat

definition execute :: "onion_db \<Rightarrow> nat \<Rightarrow> exn + unit" where
  "execute db tid =
     (if tid = conn_thread db then Inr ()
      else Inl (ProgrammingError
                  ''SQLite objects created in a thread can only be used in that same thread''))"

text \<open>
  The keyword arguments of \<open>update_link\<close>: one optional entry per column a caller may
  set. A column that is not named keeps its value. The type leaves out the keywords
  \<open>id\<close> and \<open>url\<close> and keywords that name no column (for which the \<open>UPDATE\<close> is
  rejected).
\<close>

record link_patch =
  set_title :: "string option"
  set_description :: "string option"
  set_category :: "string option"
  set_content_preview :: "string option"
  set_last_checked :: "real option"
  set_status :: "string option"
  set_discovery_source :: "string option"
  set_trust_score :: "real option"
  set_tags :: "string list option"
  set_metadata :: "(string \<times> json) list option"

definition no_patch :: link_patch where
  "no_patch = \<lparr>set_title = None, set_description = None, set_category = None,
     set_content_preview = None, set_last_checked = None, set_status = None,
     set_discovery_source = None, set_trust_score = None, set_tags = None,
     set_metadata = None\<rparr>"

definition next_link_id :: "link list \<Rightarrow> nat" where
  "next_link_id rows = Suc (fold max (map link_id rows) 0)"

text \<open>
  \<open>add_link\<close>: \<open>INSERT OR IGNORE\<close> leaves the table alone when the URL is present
  (\<open>url\<close> is \<open>UNIQUE\<close>) and the row count then says so. \<open>t\<close> is
  \<open>datetime.datetime.now()\<close>.
\<close>

definition add_link ::
  "onion_db \<Rightarrow> nat \<Rightarrow> url \<Rightarrow> string \<Rightarrow> string \<Rightarrow> string \<Rightarrow> string \<Rightarrow> string \<Rightarrow> string list
     \<Rightarrow> (string \<times> json) list \<Rightarrow> real \<Rightarrow> bool \<times> onion_db" where
  "add_link db tid u ti de ca cp src tg md t =
     (case execute db tid of
        Inl ex \<Rightarrow> (False, db)
      | Inr ok \<Rightarrow>
          if list_ex (\<lambda>r. link_url r = u) (onion_links db) then (False, db)
          else (True, db\<lparr>onion_links := onion_links db @
                  [\<lparr>link_id = next_link_id (onion_links db), link_url = u, title = ti,
                    description = de, category = ca, content_preview = cp, last_checked = t,
                    status = ''new'', discovery_source = src, trust_score = 0, tags = tg,
                    metadata = md\<rparr>]\<rparr>))"

definition set_column :: "'a option \<Rightarrow> 'a \<Rightarrow> 'a" where
  "set_column v old = (case v of None \<Rightarrow> old | Some x \<Rightarrow> x)"

definition update_row :: "link_patch \<Rightarrow> link \<Rightarrow> link" where
  "update_row kwargs r =
     r\<lparr>title := set_column (set_title kwargs) (title r),
       description := set_column (set_description kwargs) (description r),
       category := set_column (set_category kwargs) (category r),
       content_preview := set_column (set_content_preview kwargs) (content_preview r),
       last_checked := set_column (set_last_checked kwargs) (last_checked r),
       status := set_column (set_status kwargs) (status r),
       discovery_source := set_column (set_discovery_source kwargs) (discovery_source r),
       trust_score := set_column (set_trust_score kwargs) (trust_score r),
       tags := set_column (set_tags kwargs) (tags r),
       metadata := set_column (set_metadata kwargs) (metadata r)\<rparr>"

text \<open>
  \<open>update_link\<close>: \<open>last_checked\<close> is put into the keyword arguments before the
  \<open>UPDATE\<close> is built, whatever they held; the statement changes the rows whose URL
  matches and the row count decides the result. When the statement raises, the handler
  returns false.
\<close>

definition update_link ::
  "onion_db \<Rightarrow> nat \<Rightarrow> url \<Rightarrow> link_patch \<Rightarrow> real \<Rightarrow> bool \<times> onion_db" where
  "update_link db tid u kwargs t =
     (let kwargs' = kwargs\<lparr>set_last_checked := Some t\<rparr> in
      case execute db tid of
        Inl ex \<Rightarrow> (False, db)
      | Inr ok \<Rightarrow>
          (let rows = map (\<lambda>r. if link_url r = u then update_row kwargs' r else r)
                        (onion_links db);
               rowcount = length (filter (\<lambda>r. link_url r = u) (onion_links db))
           in if rowcount > 0 then (True, db\<lparr>onion_links := rows\<rparr>) else (False, db)))"

definition update_link_status ::
  "onion_db \<Rightarrow> nat \<Rightarrow> url \<Rightarrow> string \<Rightarrow> string option \<Rightarrow> string option \<Rightarrow> string option
     \<Rightarrow> real \<Rightarrow> bool \<times> onion_db" where
  "update_link_status db tid u st ti de cp t =
     update_link db tid u
       (no_patch\<lparr>set_status := Some st, set_title := ti, set_description := de,
          set_content_preview := cp\<rparr>) t"

definition add_crawl_history ::
  "onion_db \<Rightarrow> nat \<Rightarrow> url \<Rightarrow> string \<Rightarrow> real option \<Rightarrow> string option \<Rightarrow> real
     \<Rightarrow> bool \<times> onion_db" where
  "add_crawl_history db tid u st rt msg t =
     (case execute db tid of
        Inl ex \<Rightarrow> (False, db)
      | Inr ok \<Rightarrow>
          (case filter (\<lambda>r. link_url r = u) (onion_links db) of
             [] \<Rightarrow> (False, db)
           | r # rs \<Rightarrow>
               (True, db\<lparr>crawl_history := crawl_history db @
                  [\<lparr>onion_id = link_id r, crawl_date = t, crawl_status = st,
                    response_time = rt, error_message = msg\<rparr>]\<rparr>)))"

text \<open>
  \<open>LIMIT n OFFSET k\<close>: a negative limit is no limit, a negative offset is none. Rows
  that tie in the \<open>ORDER BY\<close> columns keep their table order here; SQLite promises no
  order for them.
\<close>

definition sql_limit :: "int \<Rightarrow> int \<Rightarrow> 'a list \<Rightarrow> 'a list" where
  "sql_limit n k rows =
     (let rest = drop (nat k) rows in if n < 0 then rest else take (nat n) rest)"

definition get_links_by_category ::
  "onion_db \<Rightarrow> nat \<Rightarrow> string \<Rightarrow> int \<Rightarrow> int \<Rightarrow> link list" where
  "get_links_by_category db tid ca limit offset =
     (case execute db tid of
        Inl ex \<Rightarrow> []
      | Inr ok \<Rightarrow>
          sql_limit limit offset
            (sort_key (\<lambda>r. - trust_score r)
               (sort_key (\<lambda>r. - last_checked r)
                  (filter (\<lambda>r. category r = ca) (onion_links db)))))"

text \<open>
  \<open>get_unchecked_links\<close>: \<open>older_than_hours\<close> is \<open>None\<close> or a number, and Python's
  \<open>if older_than_hours\<close> also takes the branch for new links only when it is \<open>0\<close>.
\<close>

definition get_unchecked_links ::
  "onion_db \<Rightarrow> nat \<Rightarrow> int \<Rightarrow> int option \<Rightarrow> real \<Rightarrow> url list" where
  "get_unchecked_links db tid limit older_than_hours t =
     (case execute db tid of
        Inl ex \<Rightarrow> []
      | Inr ok \<Rightarrow>
          (case older_than_hours of
             Some h \<Rightarrow>
               if h \<noteq> 0 then
                 (let cutoff_time = t - real_of_int h * 3600
                  in map link_url
                       (sql_limit limit 0
                          (sort_key (\<lambda>r. last_checked r)
                             (sort_key (\<lambda>r. - trust_score r)
                                (filter (\<lambda>r. status r = ''new''
                                            \<or> (last_checked r < cutoff_time
                                                \<and> status r \<noteq> ''blacklisted''))
                                   (onion_links db))))))
               else map link_url
                      (sql_limit limit 0
                         (sort_key (\<lambda>r. - int (link_id r))
                            (filter (\<lambda>r. status r = ''new'') (onion_links db))))
           | None \<Rightarrow>
               map link_url
                 (sql_limit limit 0
                    (sort_key (\<lambda>r. - int (link_id r))
                       (filter (\<lambda>r. status r = ''new'') (onion_links db))))))"

definition blacklist_link ::
  "onion_db \<Rightarrow> nat \<Rightarrow> url \<Rightarrow> string \<Rightarrow> real \<Rightarrow> bool \<times> onion_db" where
  "blacklist_link db tid u reason t =
     update_link db tid u
       (no_patch\<lparr>set_status := Some ''blacklisted'',
          set_metadata := Some [(''blacklist_reason'', JStr reason), (''blacklist_date'', JNum t)]\<rparr>) t"

section \<open>crawler\_pool.py\<close>

text \<open>
  The dictionary a crawl returns. Keys that some producers leave out are optional here:
  \<open>description\<close> is set only when the page has a description meta tag, and no code path
  of the crawler sets \<open>was_filtered\<close> or \<open>filter_reason\<close>. A missing \<open>title\<close> or
  \<open>response_time\<close> reads as empty or zero.
\<close>

record crawled_data =
  cd_url :: url
  cd_content :: string
  cd_links :: "url list"
  cd_errors :: "string list"
  cd_title :: string
  cd_response_time :: real
  cd_description :: "string option"
  cd_was_filtered :: "bool option"
  cd_filter_reason :: "string option"
  cd_from_clearnet :: bool

definition error_result :: "url \<Rightarrow> string \<Rightarrow> crawled_data" where
  "error_result u msg =
     \<lparr>cd_url = u, cd_content = [], cd_links = [], cd_errors = [msg], cd_title = [],
      cd_response_time = 0, cd_description = None, cd_was_filtered = None,
      cd_filter_reason = None, cd_from_clearnet = False\<rparr>"

record crawler_pool =
  max_workers :: int
  rate_limit :: real
  domain_last_crawl :: "string \<rightharpoonup> real"
  active :: bool

definition pool_extract_domain :: "env \<Rightarrow> url \<Rightarrow> string" where
  "pool_extract_domain e u =
     (case urlparse e u of
        Inl ex \<Rightarrow> u
      | Inr parsed_url \<Rightarrow>
          if netloc parsed_url = [] \<and> path parsed_url \<noteq> []
          then takeWhile (\<lambda>x. x \<noteq> CHR ''/'') (path parsed_url)
          else netloc parsed_url)"

text \<open>
  The block of \<open>_rate_limited_crawl\<close> that runs under \<open>with self.domain_lock\<close>: the
  world it is given is the world at the moment the lock is acquired, and the world it
  returns is the one in which the lock is released. The sleep happens inside the block.
\<close>

definition rate_limit_section ::
  "env \<Rightarrow> url \<Rightarrow> crawler_pool \<Rightarrow> world \<Rightarrow> (exn + crawler_pool) \<times> world" where
  "rate_limit_section e u p w =
     (let domain = pool_extract_domain e u;
          last_crawl = (case domain_last_crawl p domain of None \<Rightarrow> 0 | Some t \<Rightarrow> t);
          delay_needed = max 0 (rate_limit p - (now w - last_crawl))
      in if delay_needed > 0 then
           (let (j, w1) = random_uniform e 0 (1/2) w in
            case time_sleep (delay_needed + j) w1 of
              Inl ex \<Rightarrow> (Inl ex, w1)
            | Inr w2 \<Rightarrow>
                (Inr (p\<lparr>domain_last_crawl := (domain_last_crawl p)(domain \<mapsto> now w2)\<rparr>), w2))
         else (Inr (p\<lparr>domain_last_crawl := (domain_last_crawl p)(domain \<mapsto> now w)\<rparr>), w))"

text \<open>
  \<open>domain_lock\<close> is one \<open>threading.Lock\<close> for the whole pool, so the locked blocks of
  the tasks of a batch run one after another, each starting when the one before it
  releases the lock. For tasks that are all dispatched at the time of the given world
  and take the lock in list order, \<open>locked_sections\<close> gives for each task the time at
  which it leaves the block and starts its crawl.
\<close>

fun locked_sections :: "env \<Rightarrow> url list \<Rightarrow> crawler_pool \<Rightarrow> world \<Rightarrow> (url \<times> real) list" where
  "locked_sections e [] p w = []"
| "locked_sections e (u # us) p w =
     (case rate_limit_section e u p w of
        (Inl ex, w1) \<Rightarrow> (u, now w1) # locked_sections e us p w1
      | (Inr p1, w1) \<Rightarrow> (u, now w1) # locked_sections e us p1 w1)"

text \<open>
  \<open>yield_order\<close> puts the futures of a batch in the order \<open>as_completed\<close> yields them
  (a position that names no future is skipped). \<open>collect_results\<close> is the loop of
  \<open>crawl_batch\<close> over \<open>as_completed\<close>: it is given the futures in the order they are
  yielded, each with its URL and with what \<open>future.result()\<close> does, and
  fills the dictionary \<open>results\<close>. A Python dictionary keeps a key at the place of its
  first insertion and overwrites its value, which is \<open>AList.update\<close>.
\<close>

definition yield_order :: "env \<Rightarrow> 'a list \<Rightarrow> 'a list" where
  "yield_order e futures =
     map (\<lambda>i. futures ! i)
       (filter (\<lambda>i. i < length futures) (as_completed e (length futures)))"

definition task_entry :: "url \<Rightarrow> exn + crawled_data \<Rightarrow> crawled_data" where
  "task_entry u r = (case r of Inr d \<Rightarrow> d | Inl ex \<Rightarrow> error_result u (str_exn ex))"

fun collect_results ::
  "(url \<times> (exn + crawled_data)) list \<Rightarrow> (url \<times> crawled_data) list \<Rightarrow> (url \<times> crawled_data) list" where
  "collect_results [] results = results"
| "collect_results ((u, r) # rest) results =
     collect_results rest (AList.update u (task_entry u r) results)"

section \<open>enhanced\_crawler.py\<close>

record config =
  CRAWL_DEPTH :: int
  CRAWL_DELAY_MIN :: real
  CRAWL_DELAY_MAX :: real
  LINK_LIMIT_PER_PAGE :: int
  CONTENT_PREVIEW_MAX_LENGTH :: int
  MAX_RETRIES :: int
  RETRY_INITIAL_DELAY :: real
  RETRY_BACKOFF_FACTOR :: real
  CLEARNET_FALLBACK_ENABLED :: bool
  DISCOVERY_SITES_LIMIT :: int

text \<open>The values of config.py.\<close>

definition Config :: config where
  "Config = \<lparr>CRAWL_DEPTH = 10, CRAWL_DELAY_MIN = 2, CRAWL_DELAY_MAX = 5,
     LINK_LIMIT_PER_PAGE = 5, CONTENT_PREVIEW_MAX_LENGTH = 500, MAX_RETRIES = 3,
     RETRY_INITIAL_DELAY = 1, RETRY_BACKOFF_FACTOR = 2, CLEARNET_FALLBACK_ENABLED = True,
     DISCOVERY_SITES_LIMIT = 5\<rparr>"

text \<open>
  The state of an \<open>EnhancedTorCrawler\<close>. \<open>manager\<close>, \<open>crawler_session\<close> and \<open>pool\<close>
  are the attributes \<open>connection_manager\<close>, \<open>session\<close> and \<open>crawler_pool\<close>;
  \<open>has_tavily\<close> says whether \<open>tavily_search\<close> is set. The content safety classifier
  is not used by the functions modelled here, and the list of user agents only to draw
  a header from.
\<close>

record crawler =
  link_db :: onion_db
  manager :: connection_manager
  crawler_session :: "session option"
  parallel_enabled :: bool
  pool :: crawler_pool
  has_tavily :: bool
  error_count :: int
  max_consecutive_errors :: int

text \<open>Python's \<open>xs[:n]\<close>, \<open>pat in s\<close> and \<open>s.startswith(pat)\<close>.\<close>

definition py_prefix :: "int \<Rightarrow> 'a list \<Rightarrow> 'a list" where
  "py_prefix n xs = (if n \<ge> 0 then take (nat n) xs else take (length xs - nat (- n)) xs)"

definition startswith :: "string \<Rightarrow> string \<Rightarrow> bool" where
  "startswith pat s = (take (length pat) s = pat)"

fun contains :: "string \<Rightarrow> string \<Rightarrow> bool" where
  "contains pat [] = (pat = [])"
| "contains pat (c # cs) = (startswith pat (c # cs) \<or> contains pat cs)"

definition randomize_delay :: "env \<Rightarrow> real \<Rightarrow> real \<Rightarrow> world \<Rightarrow> (exn + real) \<times> world" where
  "randomize_delay e lo hi w =
     (let (delay, w1) = random_uniform e lo hi w in
      case time_sleep delay w1 of
        Inl ex \<Rightarrow> (Inl ex, w1)
      | Inr w2 \<Rightarrow> (Inr delay, w2))"

definition check_tor_connection :: "env \<Rightarrow> crawler \<Rightarrow> world \<Rightarrow> bool \<times> crawler \<times> world" where
  "check_tor_connection e c w =
     (let (c1, w1) =
            (if crawler_session c = None then
               (let (s, cm1, w') = get_session e False (manager c) w
                in (c\<lparr>crawler_session := s, manager := cm1\<rparr>, w'))
             else (c, w));
          (r, cm2, w2) = perform_request e tor_check_url False 2 1 2 (manager c1) w1;
          c2 = c1\<lparr>manager := cm2\<rparr>
      in case r of
           Inl ex \<Rightarrow> (False, c2, w2)
         | Inr resp \<Rightarrow> (if status_code resp = 200 then is_tor resp else False, c2, w2))"

definition start_tor_session :: "env \<Rightarrow> crawler \<Rightarrow> world \<Rightarrow> crawler \<times> world" where
  "start_tor_session e c w =
     (let (s, cm1, w1) = get_session e False (manager c) w;
          (connection_status, c2, w2) =
            check_tor_connection e (c\<lparr>crawler_session := s, manager := cm1\<rparr>) w1
      in (c2, w2))"

text \<open>
  \<open>crawl_onion\<close> is modelled in pieces that follow its text: \<open>extract_links\<close> is the
  loop over the anchors, \<open>store_crawl\<close> the block under \<open>if store_in_db\<close> that updates
  the database after a successful parse, \<open>crawl_page\<close> the \<open>try\<close> block up to that point,
  \<open>crawl_failed\<close> the \<open>except\<close> handler, and \<open>crawl_children\<close> the recursion into
  sub-pages. \<open>crawl_page\<close> returns the exception raised, if any, with the state in which it
  was raised, since the handler goes on from that state. \<open>crawled_data["was_filtered"]\<close>
  is a dictionary subscript and raises KeyError when the key is missing.

  \<open>max_depth\<close> is a natural number: the code compares it with 0 and 1 and passes
  \<open>max_depth - 1\<close> on only when it is positive, so a negative depth behaves as 0.
  The User-Agent header is chosen with \<open>random.choice\<close> after the session is started
  and before the \<open>try\<close> block. Every call of the database is made on the thread that
  runs the crawl, \<open>thread w\<close>.
\<close>

definition empty_result :: "url \<Rightarrow> crawled_data" where
  "empty_result u =
     \<lparr>cd_url = u, cd_content = [], cd_links = [], cd_errors = [], cd_title = [],
      cd_response_time = 0, cd_description = None, cd_was_filtered = None,
      cd_filter_reason = None, cd_from_clearnet = False\<rparr>"

fun extract_links ::
  "env \<Rightarrow> url \<Rightarrow> bool \<Rightarrow> real \<Rightarrow> nat \<Rightarrow> (string \<times> string) list \<Rightarrow> crawled_data \<Rightarrow> onion_db
     \<Rightarrow> crawled_data \<times> onion_db" where
  "extract_links e u store t tid [] cd db = (cd, db)"
| "extract_links e u store t tid ((href, link_text) # rest) cd db =
     (let href' = (if \<not> (startswith ''http://'' href \<or> startswith ''https://'' href)
                   then urljoin e u href else href)
      in if contains ''.onion'' href' then
           extract_links e u store t tid rest (cd\<lparr>cd_links := cd_links cd @ [href']\<rparr>)
             (if store then
                snd (add_link db tid href' (if link_text \<noteq> [] then take 100 link_text else [])
                       [] [] [] u [] [] t)
              else db)
         else extract_links e u store t tid rest cd db)"

definition store_crawl ::
  "config \<Rightarrow> url \<Rightarrow> real \<Rightarrow> crawled_data \<Rightarrow> onion_db \<Rightarrow> nat \<Rightarrow> real \<Rightarrow> exn + onion_db" where
  "store_crawl cfg u rt cd db tid t =
     (let preview = py_prefix (CONTENT_PREVIEW_MAX_LENGTH cfg) (cd_content cd);
          md = [(''last_crawled'', JNum t), (''response_time'', JNum rt)]
      in case cd_was_filtered cd of
           None \<Rightarrow> Inl (KeyError ''was_filtered'')
         | Some was_filtered \<Rightarrow>
             (case (if was_filtered then
                      (case cd_filter_reason cd of
                         None \<Rightarrow> Inl (KeyError ''filter_reason'')
                       | Some reason \<Rightarrow>
                           Inr (md @ [(''filtered'', JBool True), (''filter_reason'', JStr reason)]))
                    else Inr md) of
                Inl ex \<Rightarrow> Inl ex
              | Inr md' \<Rightarrow>
                  (let (ok, db1) =
                         update_link db tid u
                           (no_patch\<lparr>set_title := Some (cd_title cd),
                              set_description :=
                                Some (case cd_description cd of None \<Rightarrow> [] | Some d \<Rightarrow> d),
                              set_content_preview := Some preview,
                              set_status := Some ''active'',
                              set_metadata := Some md'\<rparr>) t;
                       (ok', db2) = add_crawl_history db1 tid u ''success'' (Some rt) None t
                   in Inr db2)))"

definition crawl_page ::
  "config \<Rightarrow> env \<Rightarrow> url \<Rightarrow> bool \<Rightarrow> crawler \<Rightarrow> world
     \<Rightarrow> exn option \<times> crawled_data \<times> crawler \<times> world" where
  "crawl_page cfg e u store c w =
     (let start_time = now w;
          (r, w1) = session_request e (crawler_session c) u w
      in case r of
           Inl ex \<Rightarrow> (Some ex, empty_result u, c, w1)
         | Inr resp \<Rightarrow>
             (let rt = now w1 - start_time;
                  cd1 = (empty_result u)\<lparr>cd_response_time := rt\<rparr>
              in case raise_for_status resp of
                   Inl ex \<Rightarrow> (Some ex, cd1, c, w1)
                 | Inr ok \<Rightarrow>
                     (let cd2 = (case title_tag (soup resp) of
                                   None \<Rightarrow> cd1 | Some ti \<Rightarrow> cd1\<lparr>cd_title := ti\<rparr>);
                          cd3 = (case meta_desc (soup resp) of
                                   None \<Rightarrow> cd2 | Some d \<Rightarrow> cd2\<lparr>cd_description := Some d\<rparr>);
                          cd4 = cd3\<lparr>cd_content := page_text (soup resp)\<rparr>;
                          (cd5, db1) = extract_links e u store (now w1) (thread w1)
                                         (anchors (soup resp)) cd4 (link_db c);
                          c1 = c\<lparr>link_db := db1\<rparr>
                      in if store then
                           (case store_crawl cfg u rt cd5 db1 (thread w1) (now w1) of
                              Inl ex \<Rightarrow> (Some ex, cd5, c1, w1)
                            | Inr db2 \<Rightarrow> (None, cd5, c1\<lparr>link_db := db2\<rparr>, w1))
                         else (None, cd5, c1, w1))))"

definition crawl_failed ::
  "url \<Rightarrow> bool \<Rightarrow> real \<Rightarrow> exn \<Rightarrow> crawled_data \<Rightarrow> crawler \<Rightarrow> world
     \<Rightarrow> crawled_data \<times> crawler \<times> world" where
  "crawl_failed u store start_time ex cd c w =
     (let error_msg = ''Error crawling '' @ u @ '': '' @ str_exn ex;
          cd1 = cd\<lparr>cd_errors := cd_errors cd @ [error_msg]\<rparr>;
          db1 = (if store then
                   (let (ok, db') =
                          update_link_status (link_db c) (thread w) u ''error'' None None None
                            (now w);
                        (ok', db'') =
                          add_crawl_history db' (thread w) u ''error'' (Some (now w - start_time))
                            (Some (str_exn ex)) (now w)
                    in db'')
                 else link_db c)
      in (cd1, c\<lparr>link_db := db1, error_count := error_count c + 1\<rparr>, w))"

definition combine_subpage :: "crawled_data \<Rightarrow> url \<Rightarrow> crawled_data \<Rightarrow> crawled_data" where
  "combine_subpage cd l sub_data =
     cd\<lparr>cd_content :=
          (if cd_content sub_data \<noteq> [] then
             cd_content cd @ [CHR 0x0A, CHR 0x0A] @ ''--- Subpage: '' @ l @ '' ---'' @ [CHR 0x0A]
               @ cd_content sub_data
           else cd_content cd),
        cd_links := cd_links cd @ cd_links sub_data,
        cd_errors := cd_errors cd @ cd_errors sub_data\<rparr>"

definition shutdown_result :: "url \<Rightarrow> crawled_data" where
  "shutdown_result u = error_result u ''Crawler pool shutdown''"

text \<open>
  The loops that crawl sub-pages take the crawl of one page as the argument \<open>crawl\<close>.
  \<open>crawl_subpages\<close> is the sequential loop of \<open>crawl_onion\<close>; an exception of its
  delay leaves the loop for the handler of the enclosing \<open>try\<close>.
  \<open>rate_limited_crawl\<close> is \<open>_rate_limited_crawl\<close> of the pool, which crawls with
  \<open>store_in_db\<close> at its default; it is given the method \<open>crawl_onion\<close> of the crawler
  object it receives, which may raise. \<open>pool_tasks\<close> is the executor at work: it runs
  the tasks of a batch one after another in the order they were submitted, which is one
  of the schedules the thread pool allows, each on a worker thread that the executor
  starts, and gives for each task its URL and what \<open>future.result()\<close> does. A worker
  thread is not the thread that called \<open>crawl_batch\<close> nor any thread that existed
  before; the model gives every task a worker with a fresh number and goes back to the
  calling thread when the task is done. A crawl method is a function that returns or
  raises; a task that never finishes is not modelled. \<open>crawl_batch\<close> leaves the
  \<open>with\<close> block of the executor when all tasks are done, and collects what they
  produced with \<open>collect_results\<close> in the order \<open>as_completed\<close> yields the futures.
\<close>

fun crawl_subpages ::
  "(url \<Rightarrow> crawler \<Rightarrow> world \<Rightarrow> crawled_data \<times> crawler \<times> world) \<Rightarrow> config \<Rightarrow> env \<Rightarrow> url list
     \<Rightarrow> crawled_data \<Rightarrow> crawler \<Rightarrow> world \<Rightarrow> exn option \<times> crawled_data \<times> crawler \<times> world" where
  "crawl_subpages crawl cfg e [] cd c w = (None, cd, c, w)"
| "crawl_subpages crawl cfg e (l # ls) cd c w =
     (case randomize_delay e (CRAWL_DELAY_MIN cfg) (CRAWL_DELAY_MAX cfg) w of
        (Inl ex, w1) \<Rightarrow> (Some ex, cd, c, w1)
      | (Inr delay, w1) \<Rightarrow>
          (let (sub_data, c1, w2) = crawl l c w1
           in crawl_subpages crawl cfg e ls (combine_subpage cd l sub_data) c1 w2))"

type_synonym crawl_method =
  "url \<Rightarrow> crawler \<Rightarrow> world \<Rightarrow> (exn + crawled_data) \<times> crawler \<times> world"

definition rate_limited_crawl ::
  "crawl_method \<Rightarrow> env \<Rightarrow> url \<Rightarrow> crawler \<Rightarrow> world
     \<Rightarrow> (exn + crawled_data) \<times> crawler \<times> world" where
  "rate_limited_crawl crawl e u c w =
     (if \<not> active (pool c) then (Inr (shutdown_result u), c, w)
      else case rate_limit_section e u (pool c) w of
             (Inl ex, w1) \<Rightarrow> (Inl ex, c, w1)
           | (Inr p, w1) \<Rightarrow> crawl u (c\<lparr>pool := p\<rparr>) w1)"

definition on_worker :: "world \<Rightarrow> world" where
  "on_worker w = w\<lparr>thread := threads w, threads := threads w + 1\<rparr>"

fun pool_tasks ::
  "crawl_method \<Rightarrow> env \<Rightarrow> url list \<Rightarrow> crawler
     \<Rightarrow> world \<Rightarrow> (url \<times> (exn + crawled_data)) list \<times> crawler \<times> world" where
  "pool_tasks crawl e [] c w = ([], c, w)"
| "pool_tasks crawl e (u # us) c w =
     (let (r, c1, w1) = rate_limited_crawl crawl e u c (on_worker w);
          (rs, c2, w2) = pool_tasks crawl e us c1 (w1\<lparr>thread := thread w\<rparr>)
      in ((u, r) # rs, c2, w2))"

definition crawl_batch ::
  "crawl_method \<Rightarrow> env \<Rightarrow> url list \<Rightarrow> crawler
     \<Rightarrow> world \<Rightarrow> (url \<times> crawled_data) list \<times> crawler \<times> world" where
  "crawl_batch crawl e urls c w =
     (if urls = [] then ([], c, w)
      else (let (tasks, c1, w1) = pool_tasks crawl e urls c w
            in (collect_results (yield_order e tasks) [], c1, w1)))"

definition returning ::
  "(crawler \<Rightarrow> world \<Rightarrow> crawled_data \<times> crawler \<times> world)
     \<Rightarrow> crawler \<Rightarrow> world \<Rightarrow> (exn + crawled_data) \<times> crawler \<times> world" where
  "returning f c w = (let (cd, c1, w1) = f c w in (Inr cd, c1, w1))"

definition crawl_children ::
  "(url \<Rightarrow> bool \<Rightarrow> crawler \<Rightarrow> world \<Rightarrow> crawled_data \<times> crawler \<times> world) \<Rightarrow> config \<Rightarrow> env \<Rightarrow> url
     \<Rightarrow> bool \<Rightarrow> bool \<Rightarrow> real \<Rightarrow> crawled_data \<Rightarrow> crawler \<Rightarrow> world
     \<Rightarrow> crawled_data \<times> crawler \<times> world" where
  "crawl_children crawl cfg e u deeper store start_time cd c w =
     (let links_to_crawl = py_prefix (LINK_LIMIT_PER_PAGE cfg) (cd_links cd) in
      if parallel_enabled c \<and> length links_to_crawl > 1 \<and> deeper then
        (let (sub_results, c1, w1) = crawl_batch (\<lambda>l. returning (crawl l True)) e links_to_crawl c w
         in (fold (\<lambda>(l, sub_data) acc. combine_subpage acc l sub_data) sub_results cd, c1, w1))
      else
        (case crawl_subpages (\<lambda>l. crawl l store) cfg e links_to_crawl cd c w of
           (None, cd', c1, w1) \<Rightarrow> (cd', c1, w1)
         | (Some ex, cd', c1, w1) \<Rightarrow> crawl_failed u store start_time ex cd' c1 w1))"

fun crawl_onion ::
  "config \<Rightarrow> env \<Rightarrow> nat \<Rightarrow> url \<Rightarrow> bool \<Rightarrow> crawler \<Rightarrow> world \<Rightarrow> crawled_data \<times> crawler \<times> world" where
  "crawl_onion cfg e 0 u store c w =
     (let (c0, ws) = (if crawler_session c = None then start_tor_session e c w else (c, w));
          w0 = choose_user_agent ws;
          start_time = now w0;
          (raised, cd, c1, w1) = crawl_page cfg e u store c0 w0
      in case raised of
           Some ex \<Rightarrow> crawl_failed u store start_time ex cd c1 w1
         | None \<Rightarrow> (cd, c1\<lparr>error_count := 0\<rparr>, w1))"
| "crawl_onion cfg e (Suc max_depth) u store c w =
     (let (c0, ws) = (if crawler_session c = None then start_tor_session e c w else (c, w));
          w0 = choose_user_agent ws;
          start_time = now w0;
          (raised, cd, c1, w1) = crawl_page cfg e u store c0 w0
      in case raised of
           Some ex \<Rightarrow> crawl_failed u store start_time ex cd c1 w1
         | None \<Rightarrow>
             crawl_children (crawl_onion cfg e max_depth) cfg e u (max_depth > 0) store
               start_time cd (c1\<lparr>error_count := 0\<rparr>) w1)"

text \<open>
  \<open>"\n\n".join(parts)\<close>, and \<open>_clearnet_fallback\<close> under the name
  \<open>crawler_clearnet_fallback\<close> (the connection manager has a field of the same name).
\<close>

fun join_blank :: "string list \<Rightarrow> string" where
  "join_blank [] = []"
| "join_blank [x] = x"
| "join_blank (x # y # ys) = x @ [CHR 0x0A, CHR 0x0A] @ join_blank (y # ys)"

definition crawler_clearnet_fallback ::
  "env \<Rightarrow> url \<Rightarrow> crawler \<Rightarrow> world \<Rightarrow> crawled_data \<times> crawler \<times> world" where
  "crawler_clearnet_fallback e u c w =
     (if \<not> has_tavily c then (error_result u ''No clearnet fallback available'', c, w)
      else
        (let search_terms = extract_search_terms e u;
             results = tavily_search e search_terms
         in if results = [] then (error_result u ''No results from clearnet fallback'', c, w)
            else
              (let combined_content =
                     join_blank (map (\<lambda>r. ''--- '' @ hit_title r @ '' ---'' @ [CHR 0x0A] @ hit_content r)
                                   results);
                   fallback_data =
                     \<lparr>cd_url = u,
                      cd_content = ''[CLEARNET FALLBACK RESULTS]'' @ [CHR 0x0A, CHR 0x0A] @ combined_content,
                      cd_links = map hit_url results, cd_errors = [],
                      cd_title = ''Clearnet results for '' @ search_terms,
                      cd_response_time = 0, cd_description = None, cd_was_filtered = None,
                      cd_filter_reason = None, cd_from_clearnet = True\<rparr>;
                   (ok, db1) =
                     update_link (link_db c) (thread w) u
                       (no_patch\<lparr>set_status := Some ''clearnet_fallback'',
                          set_metadata := Some [(''last_checked'', JNum (now w)),
                                                (''clearnet_fallback'', JBool True),
                                                (''search_terms'', JStr search_terms)]\<rparr>) (now w)
               in (fallback_data, c\<lparr>link_db := db1\<rparr>, w))))"

text \<open>
  \<open>crawl_with_recovery\<close>: the callable handed to \<open>retry_operation\<close> is
  \<open>lambda: self.crawl_onion(url, max_depth)\<close>, which stores its results
  (\<open>store_in_db\<close> has its default) and hands back whatever \<open>crawl_onion\<close> returns.
\<close>

definition crawl_with_recovery ::
  "config \<Rightarrow> env \<Rightarrow> url \<Rightarrow> nat \<Rightarrow> crawler \<Rightarrow> world \<Rightarrow> crawled_data \<times> crawler \<times> world" where
  "crawl_with_recovery cfg e u max_depth c w =
     (case retry_operation e
             (returning (crawl_onion cfg e max_depth u True))
             (MAX_RETRIES cfg) (RETRY_INITIAL_DELAY cfg) (RETRY_BACKOFF_FACTOR cfg) c w of
        (Inr cd, c1, w1) \<Rightarrow> (cd, c1, w1)
      | (Inl ex, c1, w1) \<Rightarrow>
          (let c2 = c1\<lparr>error_count := error_count c1 + 1\<rparr> in
           if error_count c2 \<ge> max_consecutive_errors c2 \<and> CLEARNET_FALLBACK_ENABLED cfg
           then crawler_clearnet_fallback e u c2 w1
           else ((error_result u (str_exn ex)), c2, w1)))"

text \<open>
  \<open>discover_from_directories\<close>. In the pooled branch the tasks of the batch are run by
  \<open>pool_tasks\<close>.
\<close>

fun discover_sequential ::
  "config \<Rightarrow> env \<Rightarrow> link list \<Rightarrow> int \<Rightarrow> crawler \<Rightarrow> world \<Rightarrow> int \<times> crawler \<times> world" where
  "discover_sequential cfg e [] discovered_count c w = (discovered_count, c, w)"
| "discover_sequential cfg e (directory # rest) discovered_count c w =
     (let (cd, c1, w1) = crawl_with_recovery cfg e (link_url directory) 0 c w;
          n = discovered_count + int (length (cd_links cd))
      in case randomize_delay e (CRAWL_DELAY_MIN cfg) (CRAWL_DELAY_MAX cfg) w1 of
           (Inl ex, w2) \<Rightarrow> discover_sequential cfg e rest n c1 w2
         | (Inr delay, w2) \<Rightarrow> discover_sequential cfg e rest n c1 w2)"

definition discover_from_directories ::
  "config \<Rightarrow> env \<Rightarrow> int \<Rightarrow> crawler \<Rightarrow> world \<Rightarrow> int \<times> crawler \<times> world" where
  "discover_from_directories cfg e max_sites c w =
     (let directories = get_links_by_category (link_db c) (thread w) ''directory'' max_sites 0 in
      if directories = [] then (0, c, w)
      else if parallel_enabled c \<and> length directories > 1 then
        (let directory_urls = map link_url directories;
             (results, c1, w1) =
               crawl_batch (\<lambda>u. returning (crawl_onion cfg e 0 u True)) e directory_urls c w
         in (fold (\<lambda>(u, cd) n. n + int (length (cd_links cd))) results 0, c1, w1))
      else discover_sequential cfg e directories 0 c w)"

section \<open>Inputs for the evaluations\<close>

definition example_page :: html where
  "example_page =
     \<lparr>title_tag = Some ''Index'', meta_desc = None, page_text = ''hello'',
      anchors = [(''http://b.onion/'', ''B'')]\<rparr>"

definition ok_response :: response where
  "ok_response = \<lparr>status_code = 200, reason_phrase = ''OK'', response_url = ''http://a.onion/'',
     is_tor = True, soup = example_page\<rparr>"

definition simple_urlparse :: "url \<Rightarrow> exn + parsed_url" where
  "simple_urlparse u =
     Inr \<lparr>netloc = takeWhile (\<lambda>x. x \<noteq> CHR ''/'') (drop 7 u), path = []\<rparr>"

text \<open>
  A network on which every call but the Tor check fails, and one that always answers.
  Every draw of the random source yields \<open>1/2\<close>, and the futures of a batch are yielded
  in the order of submission.
\<close>

definition failing_env :: env where
  "failing_env =
     \<lparr>net = (\<lambda>n s u. if u = tor_check_url then Inr ok_response
                      else Inl (RequestException ''timed out'')),
      latency = (\<lambda>n. 0), rnd = (\<lambda>n. 1/2), urlparse = simple_urlparse,
      urljoin = (\<lambda>b h. b @ h), tavily_search = (\<lambda>q. []), extract_search_terms = (\<lambda>u. u),
      as_completed = (\<lambda>n. [0..<n])\<rparr>"

definition working_env :: env where
  "working_env = failing_env\<lparr>net := (\<lambda>n s u. Inr ok_response)\<rparr>"

text \<open>A network whose first three calls fail and whose later calls answer.\<close>

definition flaky_env :: env where
  "flaky_env =
     failing_env\<lparr>net := (\<lambda>n s u. if n < 3 then Inl (RequestException ''timed out'')
                                 else Inr ok_response)\<rparr>"


definition world0 :: world where
  "world0 = \<lparr>now = 100, sleeps = [], draws = 0, next_sid = 1, calls = [], thread = 0,
     threads = 1\<rparr>"

definition manager0 :: connection_manager where
  "manager0 =
     \<lparr>tor_enabled = True, clearnet_fallback = True, tor_session = Some (Session 0 True),
      clearnet_session = None, circuit_created_time = Some 0, max_circuit_age = 1800,
      request_count = 0, max_requests_per_circuit = 30\<rparr>"

definition link0 :: link where
  "link0 =
     \<lparr>link_id = 1, link_url = ''http://a.onion/'', title = ''A'', description = [],
      category = ''directory'', content_preview = [], last_checked = 50, status = ''new'',
      discovery_source = ''seed'', trust_score = 0, tags = [], metadata = []\<rparr>"

definition db0 :: onion_db where
  "db0 = \<lparr>onion_links = [link0], crawl_history = [], conn_thread = 0\<rparr>"

definition pool0 :: crawler_pool where
  "pool0 = \<lparr>max_workers = 5, rate_limit = 2, domain_last_crawl = Map.empty, active = True\<rparr>"

definition crawler0 :: crawler where
  "crawler0 =
     \<lparr>link_db = db0, manager = manager0, crawler_session = Some (Session 0 True),
      parallel_enabled = True, pool = pool0, has_tavily = True, error_count = 0,
      max_consecutive_errors = 5\<rparr>"



text \<open>A throttle manager with the default parameters and statistics for one domain.\<close>

definition stats0 :: domain_stats where
  "stats0 = \<lparr>requests = 3, errors = 2, response_times = [1, 3], status_codes = [200, 503, 429],
     last_error = Some 90, consecutive_errors = 2\<rparr>"

definition throttle0 :: throttle_manager where
  "throttle0 = \<lparr>base_delay = 2, response_factor = 3/2, error_backoff = 2, max_delay = 30,
     jitter = 1/5, stats_by_domain = [''a.onion'' \<mapsto> stats0], last_request_time = Map.empty\<rparr>"


section \<open>Circuit rotation\<close>

lemma initialize_tor_session_calls:
  "calls (snd (snd (initialize_tor_session e cm w)))
     = calls w @ [(Session (next_sid w) True, tor_check_url)]"
  by (simp add: initialize_tor_session_def new_session_def choose_user_agent_def
      session_request_def Let_def split: sum.splits prod.splits)

lemma get_clearnet_session_calls:
  "calls (snd (snd (get_clearnet_session cm w))) = calls w"
  by (simp add: get_clearnet_session_def new_session_def split: option.splits)

text \<open>
  Claim C7, as amended. For a manager with Tor enabled and an established circuit (a Tor
  session and a creation time), \<open>_should_rotate_circuit\<close> holds exactly when the request
  count has reached \<open>max_requests_per_circuit\<close> or the circuit's age is strictly greater
  than \<open>max_circuit_age\<close>. When it holds, \<open>get_session\<close> opens a new Tor session and
  sends the capability check over it; when it does not, \<open>get_session\<close> returns the
  existing session and changes nothing.
\<close>

theorem rotation_condition:
  assumes "tor_enabled cm" and "tor_session cm = Some s" and "circuit_created_time cm = Some t"
  shows "should_rotate_circuit cm w =
           (request_count cm \<ge> max_requests_per_circuit cm \<or> now w - t > max_circuit_age cm)
         \<and> (should_rotate_circuit cm w \<longrightarrow>
              calls (snd (snd (get_session e False cm w)))
                = calls w @ [(Session (next_sid w) True, tor_check_url)])
         \<and> (\<not> should_rotate_circuit cm w \<longrightarrow> get_session e False cm w = (Some s, cm, w))"
proof -
  have cond: "should_rotate_circuit cm w =
           (request_count cm \<ge> max_requests_per_circuit cm \<or> now w - t > max_circuit_age cm)"
    using assms(3) by (auto simp: should_rotate_circuit_def)
  have rot: "calls (snd (snd (get_session e False cm w)))
                = calls w @ [(Session (next_sid w) True, tor_check_url)]"
    if "should_rotate_circuit cm w"
  proof -
    obtain ok cm1 w1 where i: "initialize_tor_session e cm w = (ok, cm1, w1)"
      by (cases "initialize_tor_session e cm w") auto
    have c1: "calls w1 = calls w @ [(Session (next_sid w) True, tor_check_url)]"
      using initialize_tor_session_calls [of e cm w] i by simp
    show ?thesis
      using that assms(1) i c1 get_clearnet_session_calls [of cm1 w1]
      by (simp add: get_session_def)
  qed
  have keep: "get_session e False cm w = (Some s, cm, w)" if "\<not> should_rotate_circuit cm w"
    using that assms(1,2) by (simp add: get_session_def)
  show ?thesis using cond rot keep by blast
qed

theorem rotation_condition_witness:
  "tor_enabled manager0 \<and> tor_session manager0 = Some (Session 0 True)
   \<and> circuit_created_time manager0 = Some 0
   \<and> should_rotate_circuit manager0 (world0\<lparr>now := 1801\<rparr>)
   \<and> calls (snd (snd (get_session failing_env False manager0 (world0\<lparr>now := 1801\<rparr>))))
        = [(Session 1 True, tor_check_url)]
   \<and> \<not> should_rotate_circuit manager0 world0
   \<and> get_session failing_env False manager0 world0 = (Some (Session 0 True), manager0, world0)"
proof -
  have a: "tor_enabled manager0" "tor_session manager0 = Some (Session 0 True)"
    "circuit_created_time manager0 = Some 0"
    by (simp_all add: manager0_def)
  have r1: "should_rotate_circuit manager0 (world0\<lparr>now := 1801\<rparr>)"
    and r0: "\<not> should_rotate_circuit manager0 world0"
    by (simp_all add: should_rotate_circuit_def manager0_def world0_def)
  show ?thesis
    using rotation_condition [OF a, of "world0\<lparr>now := 1801\<rparr>" failing_env]
      rotation_condition [OF a, of world0 failing_env] a r1 r0
    by (simp add: world0_def)
qed

text \<open>
  Claim C7 as stated fails at the age bound: a circuit created at time 0 with
  \<open>max_circuit_age = 1800\<close> and no requests has, at time 1800, an age that has reached
  the bound, and it is not rotated.
\<close>

theorem rotation_at_age_bound_counterexample:
  "circuit_created_time manager0 = Some 0
   \<and> now (world0\<lparr>now := 1800\<rparr>) - 0 \<ge> max_circuit_age manager0
   \<and> \<not> should_rotate_circuit manager0 (world0\<lparr>now := 1800\<rparr>)
   \<and> get_session failing_env False manager0 (world0\<lparr>now := 1800\<rparr>)
       = (tor_session manager0, manager0, world0\<lparr>now := 1800\<rparr>)"
  by (simp add: should_rotate_circuit_def get_session_def manager0_def world0_def)

section \<open>Retries in perform\_request\<close>












lemma perform_request_all_fail:
  "perform_request failing_env ''http://a.onion/'' False 3 1 2 manager0 world0 =
     (Inl (RequestException ''timed out''),
      manager0\<lparr>tor_session := Some (Session 1 True), circuit_created_time := Some 103,
        request_count := 0\<rparr>,
      \<lparr>now = 107, sleeps = [1, 2, 4], draws = 2, next_sid = 2,
        calls = [(Session 0 True, ''http://a.onion/''), (Session 0 True, ''http://a.onion/''),
                 (Session 1 True, tor_check_url),
                 (Session 0 True, ''http://a.onion/''), (Session 0 True, ''http://a.onion/'')],
        thread = 0, threads = 1\<rparr>)"
  by (simp add: perform_request_def choose_user_agent_def get_session_def should_rotate_circuit_def manager0_def
      world0_def failing_env_def ok_response_def session_request_def raise_for_status_def
      time_sleep_def initialize_tor_session_def new_session_def raise_last_def
      tor_check_url_def upt_rec Let_def)



text \<open>
  Claim C5, evaluated where it fails. The manager has clearnet fallback enabled and
  \<open>get_session\<close> hands out the Tor session 0. All four attempts of a
  \<open>perform_request\<close> with \<open>max_retries = 3\<close> fail. After the second failure the
  circuit is rotated (session 1 is created and checked), but the retries go on over
  session 0: \<open>session == self.tor_session\<close> is false from then on, so the switch to
  clearnet after the third failure is never taken and no clearnet session is created.
\<close>

theorem perform_request_stays_on_tor:
  "clearnet_fallback manager0
   \<and> get_session failing_env False manager0 world0 = (Some (Session 0 True), manager0, world0)
   \<and> (case perform_request failing_env ''http://a.onion/'' False 3 1 2 manager0 world0 of
        (r, cm, w) \<Rightarrow>
          r = Inl (RequestException ''timed out'')
          \<and> calls w = [(Session 0 True, ''http://a.onion/''), (Session 0 True, ''http://a.onion/''),
                       (Session 1 True, tor_check_url),
                       (Session 0 True, ''http://a.onion/''), (Session 0 True, ''http://a.onion/'')]
          \<and> tor_session cm = Some (Session 1 True)
          \<and> clearnet_session cm = None)"
  by (simp add: perform_request_all_fail)
     (simp add: get_session_def should_rotate_circuit_def manager0_def world0_def)

section \<open>The throttle delay\<close>

lemma last_n_Nil: "last_n n [] = []"
  by (simp add: last_n_def)

text \<open>
  Claim C8. For a domain that has statistics, \<open>get_delay\<close> returns the delay the design
  states: the base delay raised to the average response time times the response factor,
  times \<open>error_backoff ^ min consecutive_errors 3\<close>, times 1.5 if one of the last 3
  status codes is at least 500, times 2 if one of the last 5 is 429, capped at
  \<open>max_delay\<close>, and then moved by the fraction \<open>2 r - 1\<close> of \<open>jitter\<close> times the capped
  value, where \<open>r\<close> is the random number drawn; for \<open>r\<close> in \<open>[0, 1]\<close> the result is within
  \<open>jitter\<close> times the capped value of the capped value.
\<close>

theorem get_delay_formula:
  assumes "stats_by_domain tm (throttle_extract_domain e u) = Some st"
  shows "fst (get_delay e tm u w) = compute_delay_spec tm st (2 * rnd e (draws w) - 1)
         \<and> (0 \<le> rnd e (draws w) \<and> rnd e (draws w) \<le> 1 \<longrightarrow>
              \<bar>fst (get_delay e tm u w) - capped_delay tm st\<bar> \<le> \<bar>jitter tm * capped_delay tm st\<bar>)"
proof -
  define r where "r = rnd e (draws w)"
  define raised where "raised =
     (if response_times st = [] then base_delay tm
      else max (base_delay tm)
             (sum_list (response_times st) / real (length (response_times st)) * response_factor tm))"
  define backed where "backed = raised * error_backoff tm ^ min (consecutive_errors st) 3"
  define p5 where "p5 = (if \<exists>code \<in> set (last_n 3 (status_codes st)). code \<ge> 500 then 3/2 else (1::real))"
  define p4 where "p4 = (if \<exists>code \<in> set (last_n 5 (status_codes st)). code = 429 then 2 else (1::real))"
  have cap: "capped_delay tm st = min (max_delay tm) (backed * p5 * p4)"
    by (simp add: capped_delay_def backed_def raised_def p5_def p4_def)
  have g: "get_delay e tm u w = apply_jitter e tm (min (backed * p5 * p4) (max_delay tm)) w"
    unfolding get_delay_def Let_def backed_def raised_def p5_def p4_def using assms
    by (auto simp: list_ex_iff last_n_Nil mult.commute)
  have j: "fst (apply_jitter e tm d w) = d * (1 + (2 * r - 1) * jitter tm)" for d
    by (simp add: apply_jitter_def random_uniform_def r_def Let_def algebra_simps)
  have eq: "fst (get_delay e tm u w) = capped_delay tm st * (1 + (2 * r - 1) * jitter tm)"
    by (simp add: g j cap min.commute)
  have bound: "\<bar>fst (get_delay e tm u w) - capped_delay tm st\<bar> \<le> \<bar>jitter tm * capped_delay tm st\<bar>"
    if "0 \<le> r \<and> r \<le> 1"
  proof -
    have "fst (get_delay e tm u w) - capped_delay tm st = (2 * r - 1) * (jitter tm * capped_delay tm st)"
      by (simp add: eq algebra_simps)
    moreover have "\<bar>2 * r - 1\<bar> \<le> 1" using that by (simp add: abs_le_iff)
    ultimately show ?thesis
      by (simp add: abs_mult mult_left_le_one_le)
  qed
  show ?thesis using eq bound by (simp add: compute_delay_spec_def r_def)
qed

theorem get_delay_formula_witness:
  "stats_by_domain throttle0 (throttle_extract_domain (failing_env\<lparr>rnd := \<lambda>n. 3/4\<rparr>) ''http://a.onion/x'')
     = Some stats0
   \<and> capped_delay throttle0 stats0 = 30
   \<and> fst (get_delay (failing_env\<lparr>rnd := \<lambda>n. 3/4\<rparr>) throttle0 ''http://a.onion/x'' world0) = 33
   \<and> \<bar>fst (get_delay (failing_env\<lparr>rnd := \<lambda>n. 3/4\<rparr>) throttle0 ''http://a.onion/x'' world0) - 30\<bar>
        \<le> 6"
proof -
  have d: "stats_by_domain throttle0 (throttle_extract_domain (failing_env\<lparr>rnd := \<lambda>n. 3/4\<rparr>) ''http://a.onion/x'')
     = Some stats0"
    by (simp add: throttle0_def throttle_extract_domain_def failing_env_def simple_urlparse_def)
  have c: "capped_delay throttle0 stats0 = 30"
    by (simp add: capped_delay_def throttle0_def stats0_def last_n_def)
  have r: "rnd (failing_env\<lparr>rnd := \<lambda>n. 3/4\<rparr>) (draws world0) = 3/4"
    by simp
  have j: "jitter throttle0 = 1/5"
    by (simp add: throttle0_def)
  show ?thesis
    using get_delay_formula [OF d, of world0] d
    by (simp add: c r j compute_delay_spec_def)
qed

section \<open>Updating a link\<close>





section \<open>Collecting the results of a batch\<close>














section \<open>Evaluations of the crawler\<close>

text \<open>The definitions that the evaluations below unfold.\<close>

named_theorems eval_defs

lemmas [eval_defs] =
  crawl_page_def crawl_failed_def store_crawl_def empty_result_def session_request_def
  raise_for_status_def update_link_status_def update_link_def update_row_def set_column_def
  no_patch_def add_crawl_history_def add_link_def next_link_id_def startswith_def py_prefix_def
  crawler0_def world0_def db0_def link0_def Config_def working_env_def failing_env_def flaky_env_def
  ok_response_def example_page_def execute_def choose_user_agent_def returning_def Let_def

text \<open>
  Claim C1, evaluated where it fails. The link \<open>http://a.onion/\<close> is in the database
  with status \<open>new\<close>, the fetch answers 200 with a page that links to
  \<open>http://b.onion/\<close>, and results are stored. The page is parsed and the extracted link is
  added with status \<open>new\<close>, but \<open>crawled_data["was_filtered"]\<close> then raises KeyError
  (nothing sets that key), the handler runs, and the crawled link ends with status
  \<open>error\<close> and an error entry in the crawl history instead of status \<open>active\<close>.
\<close>

theorem crawl_onion_success_marks_error:
  "net working_env 0 (Session 0 True) ''http://a.onion/'' = Inr ok_response
   \<and> (case crawl_onion Config working_env 0 ''http://a.onion/'' True crawler0 world0 of
        (cd, c, w) \<Rightarrow>
          calls w = [(Session 0 True, ''http://a.onion/'')]
          \<and> cd_title cd = ''Index''
          \<and> cd_content cd = ''hello''
          \<and> cd_links cd = [''http://b.onion/'']
          \<and> cd_errors cd
               = [''Error crawling http://a.onion/: '' @ str_exn (KeyError ''was_filtered'')]
          \<and> map (\<lambda>r. (link_url r, status r)) (onion_links (link_db c))
               = [(''http://a.onion/'', ''error''), (''http://b.onion/'', ''new'')]
          \<and> map (\<lambda>h. (onion_id h, crawl_status h, error_message h)) (crawl_history (link_db c))
               = [(1, ''error'', Some (str_exn (KeyError ''was_filtered'')))]
          \<and> error_count c = 1)"
  by (simp add: eval_defs)

text \<open>
  Claim C2, evaluated where it fails. The first three network calls fail and the fourth
  would answer. \<open>crawl_with_recovery\<close> makes one call only, sleeps for no backoff delay
  and returns the failed crawl: \<open>crawl_onion\<close> catches the exception of the fetch itself
  and returns normally, so \<open>retry_operation\<close> never sees a failure to retry.
\<close>

theorem crawl_with_recovery_no_retry:
  "MAX_RETRIES Config = 3
   \<and> net flaky_env 0 (Session 0 True) ''http://a.onion/'' = Inl (RequestException ''timed out'')
   \<and> net flaky_env 1 (Session 0 True) ''http://a.onion/'' = Inl (RequestException ''timed out'')
   \<and> net flaky_env 2 (Session 0 True) ''http://a.onion/'' = Inl (RequestException ''timed out'')
   \<and> net flaky_env 3 (Session 0 True) ''http://a.onion/'' = Inr ok_response
   \<and> (case crawl_with_recovery Config flaky_env ''http://a.onion/'' 0 crawler0 world0 of
        (cd, c, w) \<Rightarrow>
          calls w = [(Session 0 True, ''http://a.onion/'')]
          \<and> sleeps w = []
          \<and> cd_content cd = []
          \<and> cd_errors cd = [''Error crawling http://a.onion/: timed out'']
          \<and> map (\<lambda>r. (link_url r, status r)) (onion_links (link_db c))
               = [(''http://a.onion/'', ''error'')])"
  by (simp add: eval_defs crawl_with_recovery_def retry_operation_def upt_rec)

text \<open>
  Claim C4, evaluated where it fails, with every call made on the thread that opened the
  database (thread 0). A directory link is blacklisted with \<open>blacklist_link\<close>. Batch recrawl selection (\<open>get_unchecked_links\<close>) leaves it out two
  days later, but \<open>get_links_by_category\<close> still returns it, so
  \<open>discover_from_directories\<close> fetches it, and the crawl overwrites its status: it is no
  longer \<open>blacklisted\<close> afterwards.
\<close>

theorem blacklisted_directory_is_crawled:
  "case blacklist_link db0 0 ''http://a.onion/'' ''spam'' 60 of
     (ok, db) \<Rightarrow>
       ok
       \<and> map (\<lambda>r. (link_url r, category r, status r)) (onion_links db)
            = [(''http://a.onion/'', ''directory'', ''blacklisted'')]
       \<and> get_unchecked_links db 0 15 (Some 24) (60 + 48 * 3600) = []
       \<and> map link_url (get_links_by_category db 0 ''directory'' 5 0) = [''http://a.onion/'']
       \<and> (case discover_from_directories Config working_env 5 (crawler0\<lparr>link_db := db\<rparr>)
                   (world0\<lparr>now := 70\<rparr>) of
             (n, c, w) \<Rightarrow>
               calls w = [(Session 0 True, ''http://a.onion/'')]
               \<and> map (\<lambda>r. (link_url r, status r)) (onion_links (link_db c))
                    = [(''http://a.onion/'', ''error''), (''http://b.onion/'', ''new'')])"
  by (simp add: eval_defs blacklist_link_def get_unchecked_links_def get_links_by_category_def
      sql_limit_def discover_from_directories_def crawl_with_recovery_def retry_operation_def
      randomize_delay_def random_uniform_def time_sleep_def upt_rec)

text \<open>
  Claim C3, evaluated where it fails. The pool's rate limit is 2 seconds and the domain
  \<open>slow.onion\<close> was crawled at time 100; \<open>fast.onion\<close> was never crawled. A task for
  \<open>fast.onion\<close> dispatched alone at time 100 starts its crawl at once. Dispatched at the
  same time as a task for \<open>slow.onion\<close> that takes the lock first, it starts only at
  \<open>102.25\<close>, when the slow task has slept out its delay inside the lock; had
  \<open>slow.onion\<close> not been crawled recently, both would have started at 100. The time the
  fast task is blocked depends on the other domain's state.
\<close>

theorem fast_domain_waits_for_slow_domain:
  "pool_extract_domain failing_env ''http://slow.onion/x'' = ''slow.onion''
   \<and> pool_extract_domain failing_env ''http://fast.onion/y'' = ''fast.onion''
   \<and> locked_sections failing_env [''http://fast.onion/y'']
         (pool0\<lparr>domain_last_crawl := [''slow.onion'' \<mapsto> 100]\<rparr>) world0
       = [(''http://fast.onion/y'', 100)]
   \<and> locked_sections failing_env [''http://slow.onion/x'', ''http://fast.onion/y'']
         (pool0\<lparr>domain_last_crawl := [''slow.onion'' \<mapsto> 100]\<rparr>) world0
       = [(''http://slow.onion/x'', 100 + 2 + 1/4), (''http://fast.onion/y'', 100 + 2 + 1/4)]
   \<and> locked_sections failing_env [''http://slow.onion/x'', ''http://fast.onion/y''] pool0 world0
       = [(''http://slow.onion/x'', 100), (''http://fast.onion/y'', 100)]"
  by (simp add: rate_limit_section_def pool_extract_domain_def pool0_def world0_def
      failing_env_def simple_urlparse_def random_uniform_def time_sleep_def Let_def)

section \<open>Crawls that store their results\<close>

text \<open>
  The two evaluations above do not depend on the page or on the network. Nothing sets
  \<open>was_filtered\<close> before \<open>store_crawl\<close> reads it, so with \<open>store_in_db\<close> every crawl
  ends in the handler and its result carries an error. The handler, when it runs on the
  thread that opened the database, leaves every row of the URL with status \<open>error\<close>; on
  any other thread it leaves the database as it was.
\<close>

lemma extract_links_was_filtered:
  "extract_links e u store t tid as cd db = (cd', db') \<Longrightarrow> cd_was_filtered cd' = cd_was_filtered cd"
  by (induction e u store t tid as cd db rule: extract_links.induct)
     (auto simp: Let_def split: if_splits)

lemma store_crawl_raises:
  "cd_was_filtered cd = None \<Longrightarrow> store_crawl cfg u rt cd db tid t = Inl (KeyError ''was_filtered'')"
  by (simp add: store_crawl_def Let_def)

lemma crawl_page_store_raises:
  "fst (crawl_page cfg e u True c w) \<noteq> None"
proof -
  obtain r w1 where sr: "session_request e (crawler_session c) u w = (r, w1)"
    by (cases "session_request e (crawler_session c) u w") auto
  show ?thesis
  proof (cases r)
    case (Inl ex)
    then show ?thesis using sr by (simp add: crawl_page_def Let_def)
  next
    case (Inr resp)
    show ?thesis
    proof (cases "raise_for_status resp")
      case (Inl ex)
      then show ?thesis using sr \<open>r = Inr resp\<close> by (simp add: crawl_page_def Let_def)
    next
      case ok: (Inr resp')
      define cd4 where "cd4 =
        (case meta_desc (soup resp) of
           None \<Rightarrow> (case title_tag (soup resp) of
                       None \<Rightarrow> (empty_result u)\<lparr>cd_response_time := now w1 - now w\<rparr>
                     | Some ti \<Rightarrow> (empty_result u)\<lparr>cd_response_time := now w1 - now w, cd_title := ti\<rparr>)
         | Some d \<Rightarrow> (case title_tag (soup resp) of
                       None \<Rightarrow> (empty_result u)\<lparr>cd_response_time := now w1 - now w\<rparr>
                     | Some ti \<Rightarrow> (empty_result u)\<lparr>cd_response_time := now w1 - now w, cd_title := ti\<rparr>)
                     \<lparr>cd_description := Some d\<rparr>)\<lparr>cd_content := page_text (soup resp)\<rparr>"
      have n: "cd_was_filtered cd4 = None"
        by (simp add: cd4_def empty_result_def split: option.splits)
      obtain cd5 db1 where x: "extract_links e u True (now w1) (thread w1) (anchors (soup resp)) cd4
                                  (link_db c) = (cd5, db1)"
        by (cases "extract_links e u True (now w1) (thread w1) (anchors (soup resp)) cd4 (link_db c)")
           auto
      have "cd_was_filtered cd5 = None"
        using extract_links_was_filtered [OF x] n by simp
      then have "store_crawl cfg u (now w1 - now w) cd5 db1 (thread w1) (now w1)
                   = Inl (KeyError ''was_filtered'')"
        by (rule store_crawl_raises)
      then show ?thesis
        using sr \<open>r = Inr resp\<close> ok x
        by (simp add: crawl_page_def Let_def cd4_def split: option.splits)
    qed
  qed
qed


lemma update_link_status_sets:
  "tid = conn_thread db \<Longrightarrow>
   \<forall>r \<in> set (onion_links (snd (update_link_status db tid u st None None None t))).
      link_url r = u \<longrightarrow> status r = st"
  by (auto simp: update_link_status_def update_link_def execute_def update_row_def set_column_def
      no_patch_def Let_def filter_empty_conv)

lemma add_crawl_history_links:
  "onion_links (snd (add_crawl_history db tid u st rt msg t)) = onion_links db"
  by (simp add: add_crawl_history_def split: list.splits sum.splits)

lemma other_thread_fails:
  assumes "tid \<noteq> conn_thread db"
  shows "add_link db tid u ti de ca cp src tg md t = (False, db)"
    and "update_link db tid u kwargs t = (False, db)"
    and "update_link_status db tid u st ti' de' cp' t = (False, db)"
    and "add_crawl_history db tid u st rt msg t = (False, db)"
    and "get_links_by_category db tid ca limit offset = []"
    and "get_unchecked_links db tid limit older_than_hours t = []"
    and "blacklist_link db tid u why t = (False, db)"
  using assms
  by (simp_all add: add_link_def update_link_def update_link_status_def add_crawl_history_def
      get_links_by_category_def get_unchecked_links_def blacklist_link_def execute_def)

lemma crawl_failed_marks_error:
  "cd_errors (fst (crawl_failed u True start_time ex cd c w)) \<noteq> []
   \<and> (thread w = conn_thread (link_db c) \<longrightarrow>
        (\<forall>r \<in> set (onion_links (link_db (fst (snd (crawl_failed u True start_time ex cd c w))))).
           link_url r = u \<longrightarrow> status r = ''error''))
   \<and> (thread w \<noteq> conn_thread (link_db c) \<longrightarrow>
        link_db (fst (snd (crawl_failed u True start_time ex cd c w))) = link_db c)"
proof -
  obtain ok db1 where
    a: "update_link_status (link_db c) (thread w) u ''error'' None None None (now w) = (ok, db1)"
    by (cases "update_link_status (link_db c) (thread w) u ''error'' None None None (now w)") auto
  obtain ok' db2 where
    b: "add_crawl_history db1 (thread w) u ''error'' (Some (now w - start_time))
          (Some (str_exn ex)) (now w) = (ok', db2)"
    by (cases "add_crawl_history db1 (thread w) u ''error'' (Some (now w - start_time))
                 (Some (str_exn ex)) (now w)") auto
  have r: "crawl_failed u True start_time ex cd c w
             = (cd\<lparr>cd_errors := cd_errors cd @ [''Error crawling '' @ u @ '': '' @ str_exn ex]\<rparr>,
                c\<lparr>link_db := db2, error_count := error_count c + 1\<rparr>, w)"
    using a b by (simp add: crawl_failed_def Let_def)
  have l: "onion_links db2 = onion_links db1"
    using add_crawl_history_links [of db1 "thread w" u "''error''" "Some (now w - start_time)"
        "Some (str_exn ex)" "now w"] b by simp
  have own: "\<forall>r \<in> set (onion_links db2). link_url r = u \<longrightarrow> status r = ''error''"
    if "thread w = conn_thread (link_db c)"
    using update_link_status_sets [OF that, of u "''error''" "now w"] a l by simp
  have other: "db2 = link_db c" if "thread w \<noteq> conn_thread (link_db c)"
  proof -
    have "db1 = link_db c"
      using other_thread_fails(3) [OF that, of u "''error''" None None None "now w"] a by simp
    then show ?thesis
      using other_thread_fails(4) [OF that, of u "''error''" "Some (now w - start_time)"
          "Some (str_exn ex)" "now w"] b by simp
  qed
  show ?thesis
    using own other by (simp add: r)
qed

lemma crawl_onion_store_fails:
  "\<exists>ex cd' c' w' t'.
     crawl_onion cfg e max_depth u True c w = crawl_failed u True t' ex cd' c' w'
     \<and> cd_errors (fst (crawl_onion cfg e max_depth u True c w)) \<noteq> []"
proof -
  obtain c0 ws where s: "(if crawler_session c = None then start_tor_session e c w else (c, w)) = (c0, ws)"
    by (cases "if crawler_session c = None then start_tor_session e c w else (c, w)") auto
  define w0 where "w0 = choose_user_agent ws"
  obtain raised cd c1 w1 where p: "crawl_page cfg e u True c0 w0 = (raised, cd, c1, w1)"
    by (cases "crawl_page cfg e u True c0 w0") auto
  obtain ex where r: "raised = Some ex"
    using crawl_page_store_raises [of cfg e u c0 w0] p by auto
  have "crawl_onion cfg e max_depth u True c w = crawl_failed u True (now w0) ex cd c1 w1"
  proof (cases max_depth)
    case 0
    show ?thesis
      unfolding 0 crawl_onion.simps s Let_def prod.case w0_def [symmetric] p r option.case ..
  next
    case (Suc d)
    show ?thesis
      unfolding Suc crawl_onion.simps s Let_def prod.case w0_def [symmetric] p r option.case ..
  qed
  then show ?thesis
    using crawl_failed_marks_error [of u "now w0" ex cd c1 w1]
    by (intro exI [of _ ex] exI [of _ cd] exI [of _ c1] exI [of _ w1] exI [of _ "now w0"]) simp
qed

text \<open>
  \<open>crawl_onion\<close> returns a result whatever the fetch did, so for a non-negative
  \<open>MAX_RETRIES\<close> the retry wrapper runs it once and returns what it returned.
\<close>

lemma crawl_with_recovery_is_one_crawl:
  assumes "0 \<le> MAX_RETRIES cfg"
  shows "crawl_with_recovery cfg e u max_depth c w = crawl_onion cfg e max_depth u True c w"
proof -
  have "[0..<nat (MAX_RETRIES cfg + 1)] = 0 # [1..<nat (MAX_RETRIES cfg + 1)]"
    using assms by (simp add: upt_rec)
  then show ?thesis
    by (simp add: crawl_with_recovery_def retry_operation_def returning_def split: prod.splits)
qed

text \<open>
  A batch of two crawls that store their results, run by the pool on a database opened
  on the calling thread: both pages are fetched, and the database is as it was.
\<close>

lemma pooled_crawls_leave_database:
  "case crawl_batch (\<lambda>u. returning (crawl_onion Config working_env 0 u True)) working_env
          [''http://a.onion/'', ''http://b.onion/''] crawler0 world0 of
     (results, c, w) \<Rightarrow>
       calls w = [(Session 0 True, ''http://a.onion/''), (Session 0 True, ''http://b.onion/'')]
       \<and> map fst results = [''http://a.onion/'', ''http://b.onion/'']
       \<and> link_db c = db0
       \<and> thread w = thread world0"
  by (simp add: eval_defs crawl_batch_def rate_limited_crawl_def rate_limit_section_def
      pool_extract_domain_def simple_urlparse_def on_worker_def pool0_def yield_order_def
      task_entry_def)

end
